theory Spec2Isabelle
  imports Main "HOL-Library.Sublist"
begin

section \<open>Python values and built-ins used by marcview.py\<close>

text \<open>
  Python \<open>bytes\<close> are lists of 8-bit characters. Python \<open>str\<close> is modelled by the
  same type; a code point above 255 has no representation, which is why the UTF-8
  decoder stays a parameter of the environment below.
\<close>

type_synonym bytes = string

text \<open>
  The exception classes that the handlers of the module name, and the ones its library
  calls are known for. \<open>IOError\<close> is Python 3's alias of \<open>OSError\<close>;
  \<open>OtherException\<close> stands for every class that none of the handlers names and that
  derives from none of them.
\<close>

datatype exn =
    IOError
  | UnicodeDecodeError
  | StopIteration
  | TypeError
  | KeyError
  | AttributeError
  | ValueError
  | JSONDecodeError
  | SAXParseException
  | OtherException

text \<open>The nearest base class, where one of the classes above is a base class.\<close>

fun base_class :: "exn \<Rightarrow> exn option" where
  "base_class UnicodeDecodeError = Some ValueError"
| "base_class JSONDecodeError = Some ValueError"
| "base_class e = None"

definition isinstance :: "exn \<Rightarrow> exn \<Rightarrow> bool" where
  "isinstance e c = (e = c \<or> base_class e = Some c)"

text \<open>\<open>except (C1, ..., Cn)\<close>: the raised exception is an instance of one of the classes.\<close>

fun except_matches :: "exn list \<Rightarrow> exn \<Rightarrow> bool" where
  "except_matches [] e = False"
| "except_matches (c # cs) e = (isinstance e c \<or> except_matches cs e)"

definition nl :: char where
  "nl = CHR 0x0A"

text \<open>\<open>bytes.strip()\<close> removes ASCII whitespace at both ends.\<close>

definition bytes_isspace :: "char \<Rightarrow> bool" where
  "bytes_isspace c = (c = CHR 0x09 \<or> c = CHR 0x0A \<or> c = CHR 0x0B \<or> c = CHR 0x0C
                      \<or> c = CHR 0x0D \<or> c = CHR 0x20)"

text \<open>\<open>str.strip()\<close> removes Unicode whitespace; these are the code points below 256.\<close>

definition str_isspace :: "char \<Rightarrow> bool" where
  "str_isspace c = (bytes_isspace c \<or> c = CHR 0x1C \<or> c = CHR 0x1D \<or> c = CHR 0x1E
                    \<or> c = CHR 0x1F \<or> c = CHR 0x85 \<or> c = CHR 0xA0)"

definition strip_with :: "(char \<Rightarrow> bool) \<Rightarrow> string \<Rightarrow> string" where
  "strip_with ws s = rev (dropWhile ws (rev (dropWhile ws s)))"

definition bytes_strip :: "bytes \<Rightarrow> bytes" where
  "bytes_strip = strip_with bytes_isspace"

definition str_strip :: "string \<Rightarrow> string" where
  "str_strip = strip_with str_isspace"

text \<open>\<open>sep.join(xs)\<close>.\<close>

fun str_join :: "string \<Rightarrow> string list \<Rightarrow> string" where
  "str_join sep [] = []"
| "str_join sep [x] = x"
| "str_join sep (x # y # ys) = x @ sep @ str_join sep (y # ys)"

text \<open>The format specification \<open>:<n\<close>: left-justified, padded with spaces up to \<open>n\<close>.\<close>

definition ljust :: "nat \<Rightarrow> string \<Rightarrow> string" where
  "ljust n s = s @ replicate (n - length s) CHR '' ''"

text \<open>
  \<open>s.split('\n\n')\<close>: the pieces between the non-overlapping occurrences of two
  consecutive newlines, scanned from the left; \<open>cur\<close> holds the current piece reversed.
  The result is never empty.
\<close>

fun split_nn :: "string \<Rightarrow> string \<Rightarrow> string list" where
  "split_nn cur [] = [rev cur]"
| "split_nn cur [a] = [rev (a # cur)]"
| "split_nn cur (a # b # cs) =
     (if a = nl \<and> b = nl then rev cur # split_nn [] cs
      else split_nn (a # cur) (b # cs))"

definition str_split_nn :: "string \<Rightarrow> string list" where
  "str_split_nn s = split_nn [] s"

section \<open>The record objects of pymarc, as the module reads them\<close>

datatype subfield = Subfield (sf_code: string) (sf_value: string)

datatype field =
    ControlField (tag: string) (data: string)
  | DataField (tag: string) (indicator1: string) (indicator2: string)
      (subfields: "subfield list")

record marc_record =
  leader :: string
  rec_fields :: "field list"

text \<open>
  The accessors the module calls. \<open>Field.is_control_field()\<close>, \<open>Field.value()\<close>
  (the data of a control field, the stripped subfield values joined by a space
  otherwise), \<open>Record.get_fields()\<close>, \<open>tag in record\<close> and \<open>record[tag]\<close> (the first
  field with that tag, \<open>KeyError\<close> when there is none).
\<close>

fun is_control_field :: "field \<Rightarrow> bool" where
  "is_control_field (ControlField t d) = True"
| "is_control_field (DataField t i1 i2 sfs) = False"

fun field_value :: "field \<Rightarrow> string" where
  "field_value (ControlField t d) = d"
| "field_value (DataField t i1 i2 sfs) = str_join '' '' (map (\<lambda>sf. str_strip (sf_value sf)) sfs)"

definition get_fields :: "marc_record \<Rightarrow> field list" where
  "get_fields r = rec_fields r"

definition get_fields_tagged :: "marc_record \<Rightarrow> string \<Rightarrow> field list" where
  "get_fields_tagged r t = filter (\<lambda>f. tag f = t) (rec_fields r)"

definition record_contains :: "marc_record \<Rightarrow> string \<Rightarrow> bool" where
  "record_contains r t = (get_fields_tagged r t \<noteq> [])"

definition record_getitem :: "marc_record \<Rightarrow> string \<Rightarrow> exn + field" where
  "record_getitem r t =
     (case get_fields_tagged r t of [] \<Rightarrow> Inl KeyError | f # fs \<Rightarrow> Inr f)"

section \<open>The environment of a call\<close>

text \<open>
  What the module imports or asks of the runtime, none of it defined in the module.
  A Python \<open>None\<close> in a list of records is \<open>None\<close> here.
  \<^item> \<open>TextReader\<close>: \<open>None\<close> when the import failed; otherwise the outcome of
    \<open>next(TextReader(StringIO(block)))\<close>.
  \<^item> \<open>parse_xml_to_array\<close>, \<open>parse_json_to_array\<close>: pymarc's decoders.
  \<^item> \<open>MARCReader_list\<close>: \<open>list(MARCReader(file, to_unicode=True, force_utf8=True))\<close>
    on a file with the given content, read from its start.
  \<^item> \<open>decode_utf8_replace\<close>: \<open>bytes.decode('utf-8', errors='replace')\<close>, which never
    raises: an undecodable byte becomes U+FFFD.
  \<^item> \<open>exc_str\<close>, \<open>format_exc\<close>: \<open>str(e)\<close> and \<open>traceback.format_exc()\<close> in a handler.
  \<^item> \<open>read_file\<close>: opening the path in binary mode and reading all of it.
\<close>

record env =
  TextReader :: "(string \<Rightarrow> exn + marc_record option) option"
  parse_xml_to_array :: "bytes \<Rightarrow> exn + marc_record option list"
  parse_json_to_array :: "bytes \<Rightarrow> exn + marc_record option list"
  MARCReader_list :: "bytes \<Rightarrow> exn + marc_record option list"
  decode_utf8_replace :: "bytes \<Rightarrow> string"
  exc_str :: "exn \<Rightarrow> string"
  format_exc :: "exn \<Rightarrow> string"
  read_file :: "string \<Rightarrow> exn + bytes"

section \<open>Format detection\<close>

definition is_marcxml :: "bytes \<Rightarrow> bool" where
  "is_marcxml content = prefix ''<?xml'' (bytes_strip content)"

definition is_json :: "bytes \<Rightarrow> bool" where
  "is_json content =
     (prefix ''['' (bytes_strip content) \<or> prefix ''{'' (bytes_strip content))"

definition is_mnemonic :: "bytes \<Rightarrow> bool" where
  "is_mnemonic content = (nl \<in> set content \<and> CHR ''='' \<in> set (take 100 content))"

text \<open>The \<open>if\<close>/\<open>elif\<close> chain of \<open>load_marc_file\<close>; the first test that holds decides.\<close>

datatype format = Xml | Json | Mnemonic | Binary

definition classify :: "bytes \<Rightarrow> format" where
  "classify content =
     (if is_marcxml content then Xml
      else if is_json content then Json
      else if is_mnemonic content then Mnemonic
      else Binary)"

section \<open>The mnemonic decoder\<close>

definition parse_mnemonic_record :: "env \<Rightarrow> string \<Rightarrow> exn + marc_record option" where
  "parse_mnemonic_record e record_data =
     (case TextReader e of
        Some reader \<Rightarrow> reader record_data
      | None \<Rightarrow> Inr None)"

text \<open>The blocks both decoders iterate over: \<open>content_str.strip().split('\n\n')\<close>.\<close>

definition records_data :: "env \<Rightarrow> bytes \<Rightarrow> string list" where
  "records_data e content = str_split_nn (str_strip (decode_utf8_replace e content))"

definition parse_mnemonic_records_fallback :: "env \<Rightarrow> bytes \<Rightarrow> marc_record option list" where
  "parse_mnemonic_records_fallback e content = map (\<lambda>_. None) (records_data e content)"

text \<open>
  The loop over the blocks, \<open>records\<close> being the list built so far. A block whose parse
  raises \<open>StopIteration\<close> or \<open>TypeError\<close> adds nothing; any other exception leaves the
  loop.
\<close>

fun parse_blocks :: "env \<Rightarrow> string list \<Rightarrow> marc_record option list
    \<Rightarrow> exn + marc_record option list" where
  "parse_blocks e [] records = Inr records"
| "parse_blocks e (record_data # rest) records =
     (case parse_mnemonic_record e record_data of
        Inr record \<Rightarrow> parse_blocks e rest (records @ [record])
      | Inl x \<Rightarrow>
          if except_matches [StopIteration, TypeError] x then parse_blocks e rest records
          else Inl x)"

text \<open>
  The handler around the first decode (a second decode as Latin-1) is not modelled:
  with \<open>errors='replace'\<close> the decode cannot raise.
\<close>

definition parse_mnemonic_records :: "env \<Rightarrow> bytes \<Rightarrow> exn + marc_record option list" where
  "parse_mnemonic_records e content =
     (case TextReader e of
        None \<Rightarrow> Inr (parse_mnemonic_records_fallback e content)
      | Some reader \<Rightarrow> parse_blocks e (records_data e content) [])"

section \<open>The renderer\<close>

definition subfield_text :: "subfield \<Rightarrow> string" where
  "subfield_text sf = sf_code sf @ '' '' @ sf_value sf"

text \<open>The text one iteration of the loop over the fields appends.\<close>

definition field_line :: "field \<Rightarrow> string" where
  "field_line f =
     (if is_control_field f then tag f @ '': '' @ data f @ [nl]
      else ljust 4 (tag f) @ '' '' @ indicator1 f @ indicator2 f @ '' ''
           @ str_join '' '' (map subfield_text (subfields f)) @ [nl])"

fun render_fields :: "field list \<Rightarrow> string \<Rightarrow> string" where
  "render_fields [] output = output"
| "render_fields (f # fs) output = render_fields fs (output @ field_line f)"

definition record_id :: "marc_record \<Rightarrow> exn + string" where
  "record_id r =
     (if record_contains r ''001''
      then (case record_getitem r ''001'' of Inl x \<Rightarrow> Inl x | Inr f \<Rightarrow> Inr (field_value f))
      else Inr ''No ID'')"

text \<open>The body of the \<open>try\<close>: \<open>'001' in None\<close> raises \<open>TypeError\<close>.\<close>

definition parse_record_body :: "marc_record option \<Rightarrow> exn + string" where
  "parse_record_body record =
     (case record of
        None \<Rightarrow> Inl TypeError
      | Some r \<Rightarrow>
          (case record_id r of
             Inl x \<Rightarrow> Inl x
           | Inr rid \<Rightarrow> Inr (render_fields (get_fields r) (''Record ID: '' @ rid @ [nl]))))"

definition parse_record :: "env \<Rightarrow> marc_record option \<Rightarrow> exn + string" where
  "parse_record e record =
     (case parse_record_body record of
        Inr output \<Rightarrow> Inr output
      | Inl x \<Rightarrow>
          if except_matches [KeyError, AttributeError] x
          then Inr (''Error parsing record: '' @ exc_str e x @ [nl] @ ''Details:'' @ [nl]
                    @ format_exc e x)
          else Inl x)"

section \<open>Loading a file\<close>

text \<open>The widgets \<open>load_marc_file\<close> touches.\<close>

record gui =
  placeholder_visible :: bool
  text_edit_visible :: bool
  text_edit_text :: string

definition separator :: string where
  "separator = [nl] @ replicate 40 CHR ''='' @ [nl]"

definition decode_records :: "env \<Rightarrow> bytes \<Rightarrow> exn + marc_record option list" where
  "decode_records e content =
     (case classify content of
        Xml \<Rightarrow> parse_xml_to_array e content
      | Json \<Rightarrow> parse_json_to_array e content
      | Mnemonic \<Rightarrow> parse_mnemonic_records e content
      | Binary \<Rightarrow> MARCReader_list e content)"

fun render_records :: "env \<Rightarrow> marc_record option list \<Rightarrow> string \<Rightarrow> exn + string" where
  "render_records e [] record_output = Inr record_output"
| "render_records e (record # rest) record_output =
     (case parse_record e record of
        Inl x \<Rightarrow> Inl x
      | Inr s \<Rightarrow> render_records e rest (record_output @ s @ separator))"

text \<open>
  The handler of \<open>load_marc_file\<close>: an \<open>IOError\<close> or \<open>UnicodeDecodeError\<close> becomes the
  text of the widget, anything else goes on to the caller (\<open>Some x\<close>).
\<close>

definition load_error :: "env \<Rightarrow> exn \<Rightarrow> gui \<Rightarrow> exn option \<times> gui" where
  "load_error e x g =
     (if except_matches [UnicodeDecodeError, IOError] x
      then (None, g\<lparr>text_edit_text :=
              ''Error reading MARC file: '' @ exc_str e x @ [nl] @ ''Details:'' @ [nl]
              @ format_exc e x\<rparr>)
      else (Some x, g))"

definition load_marc_file :: "env \<Rightarrow> string \<Rightarrow> gui \<Rightarrow> exn option \<times> gui" where
  "load_marc_file e file_path g =
     (case read_file e file_path of
        Inl x \<Rightarrow> load_error e x g
      | Inr content \<Rightarrow>
          (let g1 = g\<lparr>placeholder_visible := False, text_edit_visible := True\<rparr> in
           case decode_records e content of
             Inl x \<Rightarrow> load_error e x g1
           | Inr records \<Rightarrow>
               (case render_records e records [] of
                  Inl x \<Rightarrow> load_error e x g1
                | Inr record_output \<Rightarrow> (None, g1\<lparr>text_edit_text := record_output\<rparr>))))"

section \<open>The data-field line as the specification words it\<close>

text \<open>
  Section 4.6 of the specification: the tag padded to width 4, the two indicators,
  a space, the subfields. It is compared with \<open>field_line\<close> below.
\<close>

definition spec_data_field_line :: "field \<Rightarrow> string" where
  "spec_data_field_line f =
     ljust 4 (tag f) @ indicator1 f @ indicator2 f @ '' ''
     @ str_join '' '' (map (\<lambda>sf. sf_code sf @ '' '' @ sf_value sf) (subfields f))"

section \<open>Concrete inputs and the library as the module meets it\<close>

text \<open>
  Three files: the MARC-in-JSON record of the end-to-end scenario in an array, a
  well-formed MARCXML collection, and a mnemonic text of two blocks separated by a
  blank line, the second of which is no record.
\<close>

definition sample_json :: bytes where
  \<open>sample_json = ''[{"leader":"00123nam a2200061 a 4500","fields":[{"001":"12345"},{"245":{"ind1":"1","ind2":"0","subfields":[{"a":"Title"}]}}]}]''\<close>

definition xml_document :: bytes where
  \<open>xml_document = ''<?xml version="1.0"?><collection/>''\<close>

definition two_block_input :: bytes where
  "two_block_input = ''=001  12345\<newline>=245  10$aTitle\<newline>\<newline>not a record''"

text \<open>A record object with one control field and one data field, for the renderer.\<close>

definition sample_record :: marc_record where
  "sample_record = \<lparr>leader = ''00123nam a2200061 a 4500'',
     rec_fields = [ControlField ''001'' ''12345'',
                   DataField ''245'' ''1'' ''0'' [Subfield ''a'' ''Title'']]\<rparr>"

text \<open>
  The environment of the module as it is imported and run.
  \<^item> pymarc exports no \<open>TextReader\<close>: the import fails and the name is \<open>None\<close>.
  \<^item> \<open>load_marc_file\<close> reads the file in binary mode and hands the bytes to
    \<open>parse_xml_to_array\<close> and \<open>parse_json_to_array\<close>. The first passes them to the
    SAX parser, which takes a path or a stream and raises \<open>AttributeError\<close> on bytes;
    the second wraps them in a \<open>StringIO\<close>, which raises \<open>TypeError\<close> on bytes. Both
    happen before any of the document is read, so on every document.
  \<^item> The binary reader finds no record in an empty file. On a buffer that does not
    start with a record length it yields one \<open>None\<close> and stops; buffers that hold
    ISO 2709 records are not evaluated in this development.
  \<^item> ASCII bytes decode to themselves, and the buffers evaluated below are ASCII.
  \<^item> The exception texts are left empty and no path is readable.
\<close>

definition pymarc_env :: env where
  "pymarc_env = \<lparr>TextReader = None,
     parse_xml_to_array = (\<lambda>b. Inl AttributeError),
     parse_json_to_array = (\<lambda>b. Inl TypeError),
     MARCReader_list = (\<lambda>b. if b = [] then Inr [] else Inr [None]),
     decode_utf8_replace = (\<lambda>b. b),
     exc_str = (\<lambda>x. []),
     format_exc = (\<lambda>x. []),
     read_file = (\<lambda>p. Inl IOError)\<rparr>"

text \<open>The same with a readable file of the given content at every path.\<close>

definition file_env :: "bytes \<Rightarrow> env" where
  "file_env content = pymarc_env\<lparr>read_file := (\<lambda>p. Inr content)\<rparr>"

text \<open>
  The block loop of the mnemonic decoder runs only where a text reader could be
  imported. To evaluate the loop, this environment installs a reader of its own making:
  a block that starts with a \<open>001\<close> line gives a record with that control field,
  another block of field lines raises \<open>TypeError\<close>, an empty block raises
  \<open>StopIteration\<close>, anything else raises \<open>ValueError\<close>. It stands for no library.
\<close>

definition stub_text_reader :: "string \<Rightarrow> exn + marc_record option" where
  "stub_text_reader block =
     (if prefix ''=001  '' block
      then Inr (Some \<lparr>leader = [], rec_fields = [ControlField ''001'' (drop 6 block)]\<rparr>)
      else if prefix ''='' block then Inl TypeError
      else if block = [] then Inl StopIteration
      else Inl ValueError)"

definition reader_env :: "bytes \<Rightarrow> env" where
  "reader_env content = (file_env content)\<lparr>TextReader := Some stub_text_reader\<rparr>"

definition gui0 :: gui where
  "gui0 = \<lparr>placeholder_visible = True, text_edit_visible = False, text_edit_text = []\<rparr>"

section \<open>Auxiliary facts\<close>

lemma except_block_iff:
  "except_matches [StopIteration, TypeError] x \<longleftrightarrow> x = StopIteration \<or> x = TypeError"
  by (cases x) (simp_all add: isinstance_def)

text \<open>The guard \<open>'001' in record\<close> keeps \<open>record['001']\<close> from raising.\<close>

lemma record_id_total: "\<exists>rid. record_id r = Inr rid"
  by (simp add: record_id_def record_contains_def record_getitem_def split: list.splits)

lemma render_fields_concat: "render_fields fs acc = acc @ concat (map field_line fs)"
  by (induction fs arbitrary: acc) simp_all

lemma parse_record_body_Some:
  "\<exists>rid. parse_record_body (Some r) =
     Inr (''Record ID: '' @ rid @ [nl] @ concat (map field_line (rec_fields r)))"
proof -
  obtain rid where "record_id r = Inr rid"
    using record_id_total by blast
  then show ?thesis
    by (simp add: parse_record_body_def render_fields_concat get_fields_def)
qed

lemma parse_record_Some_body: "parse_record e (Some r) = parse_record_body (Some r)"
  using parse_record_body_Some [of r] by (auto simp: parse_record_def)

lemma parse_record_None: "parse_record e None = Inl TypeError"
  by (simp add: parse_record_def parse_record_body_def isinstance_def)

lemma split_nn_nonempty: "split_nn cur s \<noteq> []"
  by (induction cur s rule: split_nn.induct) simp_all

lemma records_data_nonempty: "records_data e content \<noteq> []"
  by (simp add: records_data_def str_split_nn_def split_nn_nonempty)

lemma subfield_text_fun: "subfield_text = (\<lambda>sf. sf_code sf @ '' '' @ sf_value sf)"
  by (rule ext) (simp add: subfield_text_def)

lemma parse_blocks_append:
  "parse_blocks e (bs1 @ bs2) records =
     (case parse_blocks e bs1 records of
        Inl x \<Rightarrow> Inl x
      | Inr records' \<Rightarrow> parse_blocks e bs2 records')"
  by (induction bs1 arbitrary: records) (simp_all split: sum.splits)

text \<open>One iteration of the block loop whose parse raises, after any earlier blocks.\<close>

lemma parse_blocks_step:
  "parse_blocks e before records = Inr records' \<Longrightarrow>
   parse_mnemonic_record e block = Inl x \<Longrightarrow>
   parse_blocks e (before @ block # rest) records =
     (if x = StopIteration \<or> x = TypeError then parse_blocks e rest records' else Inl x)"
  by (simp add: parse_blocks_append except_block_iff del: except_matches.simps)

lemma classify_sample_json: "classify sample_json = Json"
  by (simp add: classify_def is_marcxml_def is_json_def bytes_strip_def strip_with_def
      bytes_isspace_def sample_json_def)

lemma parse_sample_record:
  "parse_record e (Some sample_record)
     = Inr ''Record ID: 12345\<newline>001: 12345\<newline>245  10 a Title\<newline>''"
  by (simp add: parse_record_def parse_record_body_def record_id_def record_contains_def
      get_fields_tagged_def get_fields_def field_line_def ljust_def subfield_text_def
      record_getitem_def sample_record_def nl_def)

text \<open>
  An exception of the decoder that the handler of \<open>load_marc_file\<close> does not name
  leaves the call, after the placeholder was hidden and before any text is set.
\<close>

lemma decode_error_propagates:
  "read_file e file_path = Inr content \<Longrightarrow> decode_records e content = Inl x \<Longrightarrow>
   \<not> except_matches [UnicodeDecodeError, IOError] x \<Longrightarrow>
   load_marc_file e file_path g =
     (Some x, g\<lparr>placeholder_visible := False, text_edit_visible := True\<rparr>)"
  by (simp add: load_marc_file_def load_error_def del: except_matches.simps)

text \<open>The same for an exception of the renderer.\<close>

lemma render_error_propagates:
  "read_file e file_path = Inr content \<Longrightarrow> decode_records e content = Inr records \<Longrightarrow>
   render_records e records [] = Inl x \<Longrightarrow>
   \<not> except_matches [UnicodeDecodeError, IOError] x \<Longrightarrow>
   load_marc_file e file_path g =
     (Some x, g\<lparr>placeholder_visible := False, text_edit_visible := True\<rparr>)"
  by (simp add: load_marc_file_def load_error_def del: except_matches.simps)

section \<open>Format detection\<close>

text \<open>
  C7. A buffer that begins with \<open><?xml\<close> once its whitespace is trimmed is classified
  as Xml whatever follows, before the Json, Mnemonic and Binary rules are looked at,
  and is handed to the Xml decoder.
\<close>

theorem xml_prefix_classified_xml:
  "prefix ''<?xml'' (bytes_strip content) \<Longrightarrow>
   classify content = Xml \<and> decode_records e content = parse_xml_to_array e content"
  by (simp add: classify_def is_marcxml_def decode_records_def)

text \<open>
  At a buffer whose later content satisfies the Mnemonic rule.
\<close>

theorem xml_prefix_classified_xml_witness:
  "prefix ''<?xml'' (bytes_strip ''  <?xml [{ = \<newline>'')
   \<and> is_mnemonic ''  <?xml [{ = \<newline>''
   \<and> classify ''  <?xml [{ = \<newline>'' = Xml
   \<and> decode_records pymarc_env ''  <?xml [{ = \<newline>'' = Inl AttributeError"
proof -
  have h: "prefix ''<?xml'' (bytes_strip ''  <?xml [{ = \<newline>'')"
    by (simp add: bytes_strip_def strip_with_def bytes_isspace_def)
  have m: "is_mnemonic ''  <?xml [{ = \<newline>''"
    by (simp add: is_mnemonic_def nl_def)
  show ?thesis
    using h m xml_prefix_classified_xml [OF h, of pymarc_env] by (simp add: pymarc_env_def file_env_def reader_env_def)
qed

text \<open>
  C6, as the specification states it: where the Xml and Json rules do not fire, the
  buffer is Mnemonic exactly when its whitespace-trimmed content contains a newline
  and \<open>=\<close> within the first 100 bytes. This fails on \<open>a=b\<close> followed by a newline: the
  trimmed content has no newline, yet the buffer is classified as Mnemonic, because
  \<open>is_mnemonic\<close> looks at the buffer as it is.
\<close>

theorem mnemonic_rule_counterexample:
  "\<not> is_marcxml ''a=b\<newline>'' \<and> \<not> is_json ''a=b\<newline>''
   \<and> \<not> (nl \<in> set (bytes_strip ''a=b\<newline>'')
        \<and> CHR ''='' \<in> set (take 100 (bytes_strip ''a=b\<newline>'')))
   \<and> classify ''a=b\<newline>'' = Mnemonic"
  by (simp add: is_marcxml_def is_json_def bytes_strip_def strip_with_def bytes_isspace_def
      classify_def is_mnemonic_def nl_def)

text \<open>
  C6, amended: where the Xml and Json rules do not fire, the buffer is Mnemonic exactly
  when the buffer itself, untrimmed, contains a newline anywhere and \<open>=\<close> within its
  first 100 bytes; otherwise it is Binary.
\<close>

theorem mnemonic_rule_untrimmed:
  "\<not> is_marcxml content \<Longrightarrow> \<not> is_json content \<Longrightarrow>
   classify content =
     (if nl \<in> set content \<and> CHR ''='' \<in> set (take 100 content) then Mnemonic else Binary)"
  by (simp add: classify_def is_mnemonic_def)

theorem mnemonic_rule_untrimmed_witness:
  "\<not> is_marcxml ''a=b\<newline>'' \<and> \<not> is_json ''a=b\<newline>'' \<and> classify ''a=b\<newline>'' = Mnemonic
   \<and> \<not> is_marcxml ''a=b'' \<and> \<not> is_json ''a=b'' \<and> classify ''a=b'' = Binary"
proof -
  have a: "\<not> is_marcxml ''a=b\<newline>''" and b: "\<not> is_json ''a=b\<newline>''"
    and c: "\<not> is_marcxml ''a=b''" and d: "\<not> is_json ''a=b''"
    by (simp_all add: is_marcxml_def is_json_def bytes_strip_def strip_with_def bytes_isspace_def)
  show ?thesis
    using a b c d mnemonic_rule_untrimmed [OF a b] mnemonic_rule_untrimmed [OF c d]
    by (simp add: nl_def)
qed

section \<open>The renderer\<close>

text \<open>
  C3, as the specification states it: the line of a data field is the tag padded to
  width 4, immediately the two indicators, a space and the subfields, with no other
  character. For the field 245 with indicators 1 and 0 and the subfield \<open>a Title\<close>
  that line is \<open>245 10 a Title\<close>; the renderer emits \<open>245  10 a Title\<close>, with one
  more space between the padded tag and the indicators.
\<close>

theorem data_field_line_counterexample:
  "parse_record pymarc_env
     (Some \<lparr>leader = [],
            rec_fields = [DataField ''245'' ''1'' ''0'' [Subfield ''a'' ''Title'']]\<rparr>)
     = Inr ''Record ID: No ID\<newline>245  10 a Title\<newline>''
   \<and> field_line (DataField ''245'' ''1'' ''0'' [Subfield ''a'' ''Title''])
     = ''245  10 a Title\<newline>''
   \<and> spec_data_field_line (DataField ''245'' ''1'' ''0'' [Subfield ''a'' ''Title''])
     = ''245 10 a Title''"
  by (simp add: parse_record_def parse_record_body_def record_id_def record_contains_def
      get_fields_tagged_def get_fields_def field_line_def ljust_def subfield_text_def
      spec_data_field_line_def nl_def)

text \<open>
  C3, amended: for every record and every data field in it, the renderer emits, at the
  place of the field among the lines of the record, the tag left-justified to width 4,
  a space, the two indicators, a space, and the subfields joined by a single space,
  each as code, space, value; the line ends with a newline and has no other character.
\<close>

theorem data_field_line_emitted:
  "rec_fields r = before @ DataField t i1 i2 sfs # after \<Longrightarrow>
   \<exists>rid. parse_record e (Some r) =
     Inr (''Record ID: '' @ rid @ [nl]
          @ concat (map field_line before)
          @ (ljust 4 t @ '' '' @ i1 @ i2 @ '' ''
             @ str_join '' '' (map (\<lambda>sf. sf_code sf @ '' '' @ sf_value sf) sfs) @ [nl])
          @ concat (map field_line after))"
proof -
  assume fs: "rec_fields r = before @ DataField t i1 i2 sfs # after"
  obtain rid where rid: "parse_record_body (Some r)
      = Inr (''Record ID: '' @ rid @ [nl] @ concat (map field_line (rec_fields r)))"
    using parse_record_body_Some by blast
  have line: "field_line (DataField t i1 i2 sfs) =
      ljust 4 t @ '' '' @ i1 @ i2 @ '' ''
      @ str_join '' '' (map (\<lambda>sf. sf_code sf @ '' '' @ sf_value sf) sfs) @ [nl]"
    by (simp add: field_line_def subfield_text_fun)
  show ?thesis
    using rid fs line by (simp add: parse_record_Some_body)
qed

theorem data_field_line_emitted_witness:
  "rec_fields sample_record =
     [ControlField ''001'' ''12345''] @ DataField ''245'' ''1'' ''0'' [Subfield ''a'' ''Title''] # []
   \<and> parse_record pymarc_env (Some sample_record)
       = Inr ''Record ID: 12345\<newline>001: 12345\<newline>245  10 a Title\<newline>''"
proof -
  have h: "rec_fields sample_record =
      [ControlField ''001'' ''12345''] @ DataField ''245'' ''1'' ''0'' [Subfield ''a'' ''Title''] # []"
    by (simp add: sample_record_def)
  have v: "parse_record pymarc_env (Some sample_record)
       = Inr ''Record ID: 12345\<newline>001: 12345\<newline>245  10 a Title\<newline>''"
    by (rule parse_sample_record)
  show ?thesis
    using h v data_field_line_emitted [OF h, of pymarc_env] by simp
qed

section \<open>The mnemonic decoder\<close>

text \<open>
  C10. The recovery of the block loop covers two exception kinds. After any blocks that
  were processed, a block whose parse raises \<open>StopIteration\<close> or \<open>TypeError\<close> is
  skipped and the loop goes on with the next block, the records gathered so far
  unchanged; a block whose parse raises anything else, \<open>ValueError\<close> for one, ends the
  loop with that exception, whatever blocks remain.
\<close>

theorem block_recovery_two_kinds:
  "TextReader e = Some reader \<Longrightarrow>
   records_data e content = before @ block # rest \<Longrightarrow>
   parse_blocks e before [] = Inr records \<Longrightarrow>
   reader block = Inl x \<Longrightarrow>
   parse_mnemonic_records e content =
     (if x = StopIteration \<or> x = TypeError then parse_blocks e rest records else Inl x)"
  using parse_blocks_step [of e before "[]" records block x rest]
  by (simp add: parse_mnemonic_records_def parse_mnemonic_record_def)

theorem block_recovery_two_kinds_witness:
  "parse_mnemonic_records (reader_env [])
     ''=001  1\<newline>\<newline>=245\<newline>\<newline>=001  2''
     = Inr [Some \<lparr>leader = [], rec_fields = [ControlField ''001'' ''1'']\<rparr>,
            Some \<lparr>leader = [], rec_fields = [ControlField ''001'' ''2'']\<rparr>]
   \<and> stub_text_reader ''=245'' = Inl TypeError
   \<and> parse_mnemonic_records (reader_env [])
     ''=001  1\<newline>\<newline>245\<newline>\<newline>=001  2'' = Inl ValueError
   \<and> stub_text_reader ''245'' = Inl ValueError"
proof -
  let ?e = "reader_env []"
  let ?r1 = "Some \<lparr>leader = [], rec_fields = [ControlField ''001'' ''1'']\<rparr>"
  have t: "TextReader ?e = Some stub_text_reader"
    by (simp add: reader_env_def)
  have d1: "records_data ?e ''=001  1\<newline>\<newline>=245\<newline>\<newline>=001  2''
      = [''=001  1''] @ ''=245'' # [''=001  2'']"
    by (simp add: records_data_def pymarc_env_def file_env_def reader_env_def str_strip_def
        strip_with_def str_isspace_def bytes_isspace_def str_split_nn_def nl_def)
  have d2: "records_data ?e ''=001  1\<newline>\<newline>245\<newline>\<newline>=001  2''
      = [''=001  1''] @ ''245'' # [''=001  2'']"
    by (simp add: records_data_def pymarc_env_def file_env_def reader_env_def str_strip_def
        strip_with_def str_isspace_def bytes_isspace_def str_split_nn_def nl_def)
  have a: "parse_blocks ?e [''=001  1''] [] = Inr [?r1]"
    by (simp add: parse_mnemonic_record_def pymarc_env_def file_env_def reader_env_def
        stub_text_reader_def)
  have b: "stub_text_reader ''=245'' = Inl TypeError"
    by (simp add: stub_text_reader_def)
  have c: "stub_text_reader ''245'' = Inl ValueError"
    by (simp add: stub_text_reader_def)
  have d: "parse_blocks ?e [''=001  2''] [?r1] =
      Inr [?r1, Some \<lparr>leader = [], rec_fields = [ControlField ''001'' ''2'']\<rparr>]"
    by (simp add: parse_mnemonic_record_def pymarc_env_def file_env_def reader_env_def
        stub_text_reader_def)
  show ?thesis
    using b c d block_recovery_two_kinds [OF t d1 a b] block_recovery_two_kinds [OF t d2 a c]
    by simp
qed

text \<open>
  C9. When the import of \<open>TextReader\<close> failed, an input classified as Mnemonic is
  decoded by the fallback, which yields one \<open>None\<close> per block, and there is at least one
  block. Rendering \<open>None\<close> raises \<open>TypeError\<close>, which the handler of the renderer
  (\<open>KeyError\<close>, \<open>AttributeError\<close>) does not catch, nor does the handler of
  \<open>load_marc_file\<close>: the call ends with that exception and the text of the widget is
  not set.
\<close>

theorem fallback_none_records_abort:
  "TextReader e = None \<Longrightarrow> read_file e file_path = Inr content \<Longrightarrow>
   classify content = Mnemonic \<Longrightarrow>
   records_data e content \<noteq> []
   \<and> parse_mnemonic_records e content = Inr (replicate (length (records_data e content)) None)
   \<and> parse_record e None = Inl TypeError
   \<and> \<not> except_matches [KeyError, AttributeError] TypeError
   \<and> load_marc_file e file_path g =
       (Some TypeError, g\<lparr>placeholder_visible := False, text_edit_visible := True\<rparr>)"
proof -
  assume tr: "TextReader e = None" and rd: "read_file e file_path = Inr content"
    and cl: "classify content = Mnemonic"
  obtain b bs where blocks: "records_data e content = b # bs"
    using records_data_nonempty [of e content] by (cases "records_data e content") auto
  have recs: "parse_mnemonic_records e content =
      Inr (replicate (length (records_data e content)) None)"
    using tr by (simp add: parse_mnemonic_records_def parse_mnemonic_records_fallback_def
        map_replicate_const)
  have dec: "decode_records e content = Inr (None # replicate (length bs) None)"
    using recs cl blocks by (simp add: decode_records_def)
  have load: "load_marc_file e file_path g =
       (Some TypeError, g\<lparr>placeholder_visible := False, text_edit_visible := True\<rparr>)"
    using rd dec by (simp add: load_marc_file_def parse_record_None load_error_def isinstance_def)
  show ?thesis
    using recs load blocks by (simp add: parse_record_None isinstance_def)
qed

theorem fallback_none_records_abort_witness:
  "TextReader (file_env ''=001  12345\<newline>\<newline>=245'') = None
   \<and> read_file (file_env ''=001  12345\<newline>\<newline>=245'') ''a.txt''
       = Inr ''=001  12345\<newline>\<newline>=245''
   \<and> classify ''=001  12345\<newline>\<newline>=245'' = Mnemonic
   \<and> parse_mnemonic_records (file_env ''=001  12345\<newline>\<newline>=245'')
        ''=001  12345\<newline>\<newline>=245'' = Inr [None, None]
   \<and> load_marc_file (file_env ''=001  12345\<newline>\<newline>=245'') ''a.txt'' gui0
       = (Some TypeError,
          \<lparr>placeholder_visible = False, text_edit_visible = True, text_edit_text = []\<rparr>)"
proof -
  let ?c = "''=001  12345\<newline>\<newline>=245''"
  let ?e = "file_env ?c"
  have a: "TextReader ?e = None" by (simp add: pymarc_env_def file_env_def reader_env_def)
  have b: "read_file ?e ''a.txt'' = Inr ?c" by (simp add: file_env_def reader_env_def)
  have c: "classify ?c = Mnemonic"
    by (simp add: classify_def is_marcxml_def is_json_def is_mnemonic_def bytes_strip_def
        strip_with_def bytes_isspace_def nl_def)
  have d: "records_data ?e ?c = [''=001  12345'', ''=245'']"
    by (simp add: records_data_def pymarc_env_def file_env_def reader_env_def str_strip_def
        strip_with_def str_isspace_def bytes_isspace_def str_split_nn_def nl_def)
  show ?thesis
    using a b c d fallback_none_records_abort [OF a b c, of gui0]
    by (simp add: gui0_def pymarc_env_def file_env_def reader_env_def)
qed

section \<open>Loading a file\<close>

text \<open>
  C5, as the specification states it: the empty buffer is classified as Unknown and
  the call reports a top-level decode failure. The chain has no such class: none of
  its three tests holds for the empty buffer, which goes to the binary reader; with a
  reader that finds no record in it the call ends normally and sets the empty text,
  replacing what the widget showed, with no error message.
\<close>

theorem empty_buffer_counterexample:
  "classify [] = Binary
   \<and> load_marc_file (file_env []) ''empty.mrc''
       (gui0\<lparr>text_edit_text := ''previous''\<rparr>)
     = (None, \<lparr>placeholder_visible = False, text_edit_visible = True, text_edit_text = []\<rparr>)"
  by (simp add: classify_def is_marcxml_def is_json_def is_mnemonic_def bytes_strip_def
      strip_with_def load_marc_file_def decode_records_def pymarc_env_def file_env_def reader_env_def gui0_def)

text \<open>
  C5, amended: for the empty buffer none of the Xml, Json and Mnemonic rules fires, so
  it is handed to the binary reader; when that reader finds no record, the call ends
  normally with the empty text and reports no error.
\<close>

theorem empty_buffer_goes_to_binary:
  "read_file e file_path = Inr [] \<Longrightarrow> MARCReader_list e [] = Inr [] \<Longrightarrow>
   classify [] = Binary
   \<and> decode_records e [] = Inr []
   \<and> load_marc_file e file_path g =
       (None, g\<lparr>placeholder_visible := False, text_edit_visible := True, text_edit_text := []\<rparr>)"
  by (simp add: classify_def is_marcxml_def is_json_def is_mnemonic_def bytes_strip_def
      strip_with_def load_marc_file_def decode_records_def)

theorem empty_buffer_goes_to_binary_witness:
  "read_file (file_env []) ''empty.mrc'' = Inr []
   \<and> MARCReader_list (file_env []) [] = Inr []
   \<and> load_marc_file (file_env []) ''empty.mrc'' gui0
     = (None, \<lparr>placeholder_visible = False, text_edit_visible = True, text_edit_text = []\<rparr>)"
proof -
  let ?e = "file_env []"
  have a: "read_file ?e ''empty.mrc'' = Inr []" by (simp add: file_env_def reader_env_def)
  have b: "MARCReader_list ?e [] = Inr []" by (simp add: pymarc_env_def file_env_def reader_env_def)
  show ?thesis
    using a b empty_buffer_goes_to_binary [OF a b, of gui0] by (simp add: gui0_def)
qed

text \<open>
  C4. The end-to-end scenario expects rendered text for the sample document. The
  document is classified as Json and the bytes read from the file are handed to
  \<open>parse_json_to_array\<close>, which raises \<open>TypeError\<close> on a bytes argument. The handler
  of \<open>load_marc_file\<close> does not name that class: the call ends with the exception,
  no line is rendered and the widget keeps the text it had.
\<close>

theorem sample_json_raises_uncaught:
  "classify sample_json = Json
   \<and> decode_records (file_env sample_json) sample_json = Inl TypeError
   \<and> \<not> except_matches [UnicodeDecodeError, IOError] TypeError
   \<and> load_marc_file (file_env sample_json) ''sample.txt''
        (gui0\<lparr>text_edit_text := ''previous''\<rparr>)
     = (Some TypeError,
        \<lparr>placeholder_visible = False, text_edit_visible = True,
           text_edit_text = ''previous''\<rparr>)"
proof -
  let ?e = "file_env sample_json"
  have rd: "read_file ?e ''sample.txt'' = Inr sample_json"
    by (simp add: file_env_def)
  have dec: "decode_records ?e sample_json = Inl TypeError"
    by (simp add: decode_records_def classify_sample_json file_env_def pymarc_env_def)
  have nm: "\<not> except_matches [UnicodeDecodeError, IOError] TypeError"
    by (simp add: isinstance_def)
  show ?thesis
    using dec nm decode_error_propagates [OF rd dec nm, of "gui0\<lparr>text_edit_text := ''previous''\<rparr>"]
    by (simp add: classify_sample_json gui0_def)
qed

text \<open>
  C1. The call is to end with a top-level error message or with the text it could
  produce, never with an exception. A well-formed MARCXML collection is classified as
  Xml and its bytes are handed to \<open>parse_xml_to_array\<close>, which raises \<open>AttributeError\<close>
  on a bytes argument. The handler of \<open>load_marc_file\<close> names \<open>UnicodeDecodeError\<close>
  and \<open>IOError\<close> only: the call ends with the exception, no error message is shown
  and the widget keeps the text it had.
\<close>

theorem xml_document_raises_uncaught:
  "classify xml_document = Xml
   \<and> decode_records (file_env xml_document) xml_document = Inl AttributeError
   \<and> \<not> except_matches [UnicodeDecodeError, IOError] AttributeError
   \<and> load_marc_file (file_env xml_document) ''records.txt''
        (gui0\<lparr>text_edit_text := ''previous''\<rparr>)
     = (Some AttributeError,
        \<lparr>placeholder_visible = False, text_edit_visible = True,
           text_edit_text = ''previous''\<rparr>)"
proof -
  let ?e = "file_env xml_document"
  have cl: "classify xml_document = Xml"
    by (simp add: classify_def is_marcxml_def bytes_strip_def strip_with_def bytes_isspace_def
        xml_document_def)
  have rd: "read_file ?e ''records.txt'' = Inr xml_document"
    by (simp add: file_env_def)
  have dec: "decode_records ?e xml_document = Inl AttributeError"
    by (simp add: decode_records_def cl file_env_def pymarc_env_def)
  have nm: "\<not> except_matches [UnicodeDecodeError, IOError] AttributeError"
    by (simp add: isinstance_def)
  show ?thesis
    using cl dec nm
      decode_error_propagates [OF rd dec nm, of "gui0\<lparr>text_edit_text := ''previous''\<rparr>"]
    by (simp add: gui0_def)
qed

text \<open>
  C2. With two blocks of which the second is malformed the call is not to raise, and
  the text is to hold the rendered first record and an inline error marker for the
  second. In the module as imported there is no text reader: the input is classified
  as Mnemonic, the fallback puts \<open>None\<close> in place of both blocks, and rendering the
  first \<open>None\<close> raises a \<open>TypeError\<close> that no handler catches. The call ends with the
  exception; neither the first record nor a marker is shown.
\<close>

theorem two_blocks_raise_uncaught:
  "classify two_block_input = Mnemonic
   \<and> TextReader (file_env two_block_input) = None
   \<and> records_data (file_env two_block_input) two_block_input
       = [''=001  12345\<newline>=245  10$aTitle'', ''not a record'']
   \<and> decode_records (file_env two_block_input) two_block_input = Inr [None, None]
   \<and> render_records (file_env two_block_input) [None, None] [] = Inl TypeError
   \<and> load_marc_file (file_env two_block_input) ''two.txt''
        (gui0\<lparr>text_edit_text := ''previous''\<rparr>)
     = (Some TypeError,
        \<lparr>placeholder_visible = False, text_edit_visible = True,
           text_edit_text = ''previous''\<rparr>)"
proof -
  let ?e = "file_env two_block_input"
  have cl: "classify two_block_input = Mnemonic"
    by (simp add: classify_def is_marcxml_def is_json_def is_mnemonic_def bytes_strip_def
        strip_with_def bytes_isspace_def two_block_input_def nl_def)
  have tr: "TextReader ?e = None"
    by (simp add: file_env_def pymarc_env_def)
  have rd: "read_file ?e ''two.txt'' = Inr two_block_input"
    by (simp add: file_env_def)
  have bl: "records_data ?e two_block_input
      = [''=001  12345\<newline>=245  10$aTitle'', ''not a record'']"
    by (simp add: records_data_def file_env_def pymarc_env_def str_strip_def strip_with_def
        str_isspace_def bytes_isspace_def str_split_nn_def two_block_input_def nl_def)
  have dec: "decode_records ?e two_block_input = Inr [None, None]"
    using cl tr bl
    by (simp add: decode_records_def parse_mnemonic_records_def
        parse_mnemonic_records_fallback_def)
  have rn: "render_records ?e [None, None] [] = Inl TypeError"
    by (simp add: parse_record_None)
  have nm: "\<not> except_matches [UnicodeDecodeError, IOError] TypeError"
    by (simp add: isinstance_def)
  show ?thesis
    using cl tr bl dec rn
      render_error_propagates [OF rd dec rn nm, of "gui0\<lparr>text_edit_text := ''previous''\<rparr>"]
    by (simp add: gui0_def)
qed

end
